theory Spec2Isabelle
  imports
    Complex_Main
    "HOL-Library.Multiset"
    "HOL-Library.Char_ord"
    "HOL-Library.List_Lexorder"
    "HOL-Library.Product_Lexorder"
begin

section \<open>Data model\<close>

text \<open>
  The dashboard of \<^verbatim>\<open>project-code.py\<close> is a script over pandas tables. A table is
  modelled as the list of its rows, in row order, and a row as a record of the columns the
  script reads. Columns the script never reads (such as the country code) are left out.

  Cells of a value column, as \<^verbatim>\<open>read_csv\<close> delivers them: a number, a string, or the
  missing value \<^verbatim>\<open>NaN\<close>. The numbers of these cells are rationals. In a numeric
  column a cell is a \<open>rat option\<close>, with \<open>None\<close> for \<^verbatim>\<open>NaN\<close>. The sums of
  the aggregation are those of the column's number type, with its rounding, its
  infinities and its \<^verbatim>\<open>NaN\<close>, as described there.
  \<^verbatim>\<open>Year\<close> is an integer column and \<^verbatim>\<open>Country\<close> a string column, as the
  record description of the specification has them.
\<close>

datatype cell = NaN | Num rat | Str string

record country_row =
  Country :: string

record year_row = country_row +
  Year :: int

text \<open>
  A row of the meat production or of the agricultural land table. \<open>Value\<close> is the
  column \<^verbatim>\<open>Meat_Production\<close> or \<^verbatim>\<open>Agricultural_Area\<close>, whichever the chosen
  dataset has; its cells are of type \<open>'v\<close>: \<^typ>\<open>cell\<close> as loaded,
  \<open>rat option\<close> once coerced.
\<close>

record 'v data_row = year_row +
  Value :: 'v

record 'v map_row = "'v data_row" +
  Latitude :: "rat option"
  Longitude :: "rat option"

record obesity_row = year_row +
  Obesity :: "rat option"

record consumption_row = country_row +
  Kilograms_capita :: "rat option"

datatype dataset_choice = MeatProduction | AgriculturalLandUse | MeatConsumption | ObesityChoice

datatype visualization_choice = MapChoice | LineGraph

section \<open>Dataset loaders\<close>

text \<open>
  \<^verbatim>\<open>df.rename(columns={...}, inplace=True)\<close>: every column label that is a key of the
  dictionary is replaced by its value, every other label is kept, and a key that is no
  label of the table is ignored. The loaders change nothing but the labels, so a loader is
  modelled on the header of the table \<^verbatim>\<open>read_csv\<close> returns, which is its argument
  here (the remote file is no part of the source).
\<close>

definition rename :: "(string \<times> string) list \<Rightarrow> string list \<Rightarrow> string list" where
  "rename columns header = map (\<lambda>c. case map_of columns c of Some n \<Rightarrow> n | None \<Rightarrow> c) header"

definition meat_raw_name :: string where
  "meat_raw_name = ''Meat, total | 00001765 || Production | 005510 || tonnes''"

definition obesity_raw_name :: string where
  "obesity_raw_name =
     ''Prevalence of obesity among adults, BMI >= 30 (crude estimate) (%) - Sex: both sexes - Age group: 18+  years''"

definition load_meat_data :: "string list \<Rightarrow> string list" where
  "load_meat_data header =
     rename [(''Entity'', ''Country''), (meat_raw_name, ''Meat_Production'')] header"

definition load_agriculture_data :: "string list \<Rightarrow> string list" where
  "load_agriculture_data header =
     rename [(''Entity'', ''Country''), (''Land use: Agriculture'', ''Agricultural_Area'')] header"

definition load_obesity_data :: "string list \<Rightarrow> string list" where
  "load_obesity_data header =
     rename [(obesity_raw_name, ''Obesity'')] (rename [(''Entity'', ''Country'')] header)"

text \<open>
  \<^verbatim>\<open>df.columns.str.replace('"', '').str.strip()\<close>. A \<^typ>\<open>string\<close> is a list of
  bytes, so \<open>isspace\<close> is Python's \<^verbatim>\<open>str.isspace\<close> on the ASCII range: the
  characters 9 to 13 and 28 to 32.
\<close>

definition isspace :: "char \<Rightarrow> bool" where
  "isspace c = (let n = (of_char c :: nat) in (9 \<le> n \<and> n \<le> 13) \<or> (28 \<le> n \<and> n \<le> 32))"

definition strip :: "string \<Rightarrow> string" where
  "strip s = rev (dropWhile isspace (rev (dropWhile isspace s)))"

definition replace_quote :: "string \<Rightarrow> string" where
  "replace_quote s = filter (\<lambda>c. c \<noteq> CHR 0x22) s"

definition load_consumption_data :: "string list \<Rightarrow> string list" where
  "load_consumption_data header = map (\<lambda>c. strip (replace_quote c)) header"

section \<open>Coordinate resolver\<close>

text \<open>
  \<^verbatim>\<open>geolocator.geocode(country)\<close> is the external lookup; the resolver takes it as
  the function \<open>geocode\<close>, which returns the latitude and longitude of the location found
  or \<open>None\<close>. A table of coordinates is the list of tuples the loop appends. The
  script catches no exception, so a lookup that raises ends the run; such a run has no
  result and is not modelled.
\<close>

type_synonym coordinate = "string \<times> rat option \<times> rat option"

fun get_country_coordinates :: "(string \<Rightarrow> (rat \<times> rat) option) \<Rightarrow> string list \<Rightarrow> coordinate list" where
  "get_country_coordinates geocode [] = []"
| "get_country_coordinates geocode (country # country_list) =
     (case geocode country of
        Some (latitude, longitude) \<Rightarrow> (country, Some latitude, Some longitude)
      | None \<Rightarrow> (country, None, None))
     # get_country_coordinates geocode country_list"

section \<open>Production and land use: filtering, merging, coercion\<close>

text \<open>
  The country-of-interest lists of the two datasets that have a map and a line view
  (lines 79 to 82 and 90 to 93). The script enters this branch for no other choice.
\<close>

fun selected_countries :: "dataset_choice \<Rightarrow> string list" where
  "selected_countries MeatProduction =
     [''United States'', ''Argentina'', ''Pakistan'', ''Germany'', ''India'',
      ''Brazil'', ''China'', ''Russia'', ''Mexico'', ''Spain'']"
| "selected_countries AgriculturalLandUse =
     [''United States'', ''Argentina'', ''India'', ''Australia'', ''Brazil'',
      ''Kazakhstan'', ''China'', ''Russia'', ''Mexico'', ''Saudi Arabia'']"
| "selected_countries _ = []"

text \<open>
  Lines 104 and 105: \<^verbatim>\<open>data[data["Year"] == year]\<close>, then
  \<^verbatim>\<open>[filtered_data["Country"].isin(selected_countries)]\<close>. The year is the value
  the slider returns.
\<close>

definition filtered_data_year_country ::
  "string list \<Rightarrow> 'v data_row list \<Rightarrow> int \<Rightarrow> 'v data_row list" where
  "filtered_data_year_country countries data year =
     filter (\<lambda>r. Country r \<in> set countries) (filter (\<lambda>r. Year r = year) data)"

text \<open>
  Line 109: \<^verbatim>\<open>pd.merge(filtered_data, coordinates, on="Country", how="left")\<close>. Every
  row of the left table is kept, in order, once for each row of the right table with the
  same country; a row with no partner is kept once with both coordinates missing.
\<close>

definition with_coordinates :: "'v data_row \<Rightarrow> rat option \<Rightarrow> rat option \<Rightarrow> 'v map_row" where
  "with_coordinates r latitude longitude =
     \<lparr>Country = Country r, Year = Year r, Value = Value r,
      Latitude = latitude, Longitude = longitude\<rparr>"

definition merge_left :: "'v data_row list \<Rightarrow> coordinate list \<Rightarrow> 'v map_row list" where
  "merge_left rows coordinates =
     concat (map (\<lambda>r.
       case filter (\<lambda>(country, latitude, longitude). country = Country r) coordinates of
         [] \<Rightarrow> [with_coordinates r None None]
       | partners \<Rightarrow>
           map (\<lambda>(country, latitude, longitude). with_coordinates r latitude longitude) partners)
       rows)"

text \<open>
  Lines 113 and 115: \<^verbatim>\<open>pd.to_numeric(column, errors="coerce")\<close>. A number stays, the
  missing value stays missing, and a string becomes the number it denotes, or the missing
  value when it denotes none. Which strings denote which numbers is the library's matter:
  \<open>parse\<close> is its conversion, \<open>None\<close> on the strings it rejects.
\<close>

fun to_numeric :: "(string \<Rightarrow> rat option) \<Rightarrow> cell \<Rightarrow> rat option" where
  "to_numeric parse NaN = None"
| "to_numeric parse (Num x) = Some x"
| "to_numeric parse (Str s) = parse s"

definition to_numeric_map_row ::
  "(string \<Rightarrow> rat option) \<Rightarrow> cell map_row \<Rightarrow> rat option map_row" where
  "to_numeric_map_row parse r =
     \<lparr>Country = Country r, Year = Year r, Value = to_numeric parse (Value r),
      Latitude = Latitude r, Longitude = Longitude r\<rparr>"

definition to_numeric_data_row ::
  "(string \<Rightarrow> rat option) \<Rightarrow> cell data_row \<Rightarrow> rat option data_row" where
  "to_numeric_data_row parse r =
     \<lparr>Country = Country r, Year = Year r, Value = to_numeric parse (Value r)\<rparr>"

text \<open>Line 118: \<^verbatim>\<open>dropna(subset=["Latitude", "Longitude"])\<close>.\<close>

definition dropna :: "'v map_row list \<Rightarrow> 'v map_row list" where
  "dropna rows = filter (\<lambda>r. Latitude r \<noteq> None \<and> Longitude r \<noteq> None) rows"

text \<open>The stages of \<^verbatim>\<open>filtered_data\<close>, lines 104 to 118, the last being the map input.\<close>

definition filtered_data_merged ::
  "(string \<Rightarrow> (rat \<times> rat) option) \<Rightarrow> string list \<Rightarrow> 'v data_row list \<Rightarrow> int \<Rightarrow> 'v map_row list" where
  "filtered_data_merged geocode countries data year =
     merge_left (filtered_data_year_country countries data year)
       (get_country_coordinates geocode countries)"

definition filtered_data_numeric ::
  "(string \<Rightarrow> rat option) \<Rightarrow> (string \<Rightarrow> (rat \<times> rat) option) \<Rightarrow> string list \<Rightarrow>
   cell data_row list \<Rightarrow> int \<Rightarrow> rat option map_row list" where
  "filtered_data_numeric parse geocode countries data year =
     map (to_numeric_map_row parse) (filtered_data_merged geocode countries data year)"

definition filtered_data ::
  "(string \<Rightarrow> rat option) \<Rightarrow> (string \<Rightarrow> (rat \<times> rat) option) \<Rightarrow> string list \<Rightarrow>
   cell data_row list \<Rightarrow> int \<Rightarrow> rat option map_row list" where
  "filtered_data parse geocode countries data year =
     dropna (filtered_data_numeric parse geocode countries data year)"

section \<open>Production and land use: the line-chart aggregation\<close>

text \<open>
  \<^verbatim>\<open>groupby(["Year", "Country"])[column].sum().reset_index()\<close>: one row for each pair
  of year and country that occurs, the pairs in ascending order (year first, then the
  country name), each with the sum of the group's cells that are not missing.

  The sum is that of the column's own number type, \<^verbatim>\<open>float64\<close> or \<^verbatim>\<open>int64\<close>,
  and is a parameter of the aggregation: the zero it starts from, its addition, which
  rounds, overflows or wraps as the type has it and may return \<^verbatim>\<open>NaN\<close> (as for an
  infinity and its opposite), and its test for the missing value. The cells are taken from
  first to last, the missing ones skipped; the sum of none is the zero. The compensation
  term that the library's \<^verbatim>\<open>float64\<close> sum carries along bears on the rounding only, and
  the two zeros of \<^verbatim>\<open>float64\<close> are one number here, as they are equal.
\<close>

record 'f arithmetic =
  zero_value :: 'f
  add_value :: "'f \<Rightarrow> 'f \<Rightarrow> 'f"
  is_nan :: "'f \<Rightarrow> bool"

fun nansum :: "'f arithmetic \<Rightarrow> 'f \<Rightarrow> 'f list \<Rightarrow> 'f" where
  "nansum arith acc [] = acc"
| "nansum arith acc (v # vs) =
     (if is_nan arith v then nansum arith acc vs
      else nansum arith (add_value arith acc v) vs)"

definition group_key :: "'v data_row \<Rightarrow> int \<times> string" where
  "group_key r = (Year r, Country r)"

definition group_sum :: "'f arithmetic \<Rightarrow> 'f data_row list \<Rightarrow> int \<times> string \<Rightarrow> 'f data_row" where
  "group_sum arith rows k =
     \<lparr>Country = snd k, Year = fst k,
      Value = nansum arith (zero_value arith)
                (map Value (filter (\<lambda>r. group_key r = k) rows))\<rparr>"

definition groupby_sum :: "'f arithmetic \<Rightarrow> 'f data_row list \<Rightarrow> 'f data_row list" where
  "groupby_sum arith rows =
     map (group_sum arith rows) (sort (remdups (map group_key rows)))"

text \<open>
  Two number types. The cells that \<open>to_numeric\<close> above returns are finite numbers or
  missing, and their sums are taken exactly. The cells of a \<^verbatim>\<open>float64\<close> column are a
  finite number, one of the two infinities, or \<^verbatim>\<open>NaN\<close>; the sum of an infinity and its
  opposite is \<^verbatim>\<open>NaN\<close> (finite sums are shown without rounding).
\<close>

definition exact_arithmetic :: "rat option arithmetic" where
  "exact_arithmetic =
     \<lparr>zero_value = Some 0,
      add_value = (\<lambda>a b. case a of None \<Rightarrow> None
                          | Some x \<Rightarrow> (case b of None \<Rightarrow> None | Some y \<Rightarrow> Some (x + y))),
      is_nan = (\<lambda>v. v = None)\<rparr>"

datatype float64 = Finite rat | PosInf | NegInf | NotANumber

fun float_add :: "float64 \<Rightarrow> float64 \<Rightarrow> float64" where
  "float_add (Finite x) (Finite y) = Finite (x + y)"
| "float_add NotANumber v = NotANumber"
| "float_add v NotANumber = NotANumber"
| "float_add PosInf NegInf = NotANumber"
| "float_add NegInf PosInf = NotANumber"
| "float_add PosInf v = PosInf"
| "float_add v PosInf = PosInf"
| "float_add NegInf v = NegInf"
| "float_add v NegInf = NegInf"

definition float_arithmetic :: "float64 arithmetic" where
  "float_arithmetic =
     \<lparr>zero_value = Finite 0, add_value = float_add, is_nan = (\<lambda>v. v = NotANumber)\<rparr>"

text \<open>
  Lines 166 to 168 and 182 to 184. The line chart starts again from \<^verbatim>\<open>data\<close>; for
  the agricultural table the rows before 1600 are left out. The last branch stands for the
  choices for which line 70 keeps the script out of this part.
\<close>

definition line_graph_data ::
  "dataset_choice \<Rightarrow> (string \<Rightarrow> rat option) \<Rightarrow> string list \<Rightarrow> cell data_row list \<Rightarrow>
   rat option data_row list" where
  "line_graph_data choice parse countries data =
     (if choice = MeatProduction then
        groupby_sum exact_arithmetic (map (to_numeric_data_row parse)
          (filter (\<lambda>r. Country r \<in> set countries) data))
      else if choice = AgriculturalLandUse then
        groupby_sum exact_arithmetic (map (to_numeric_data_row parse)
          (filter (\<lambda>r. 1600 \<le> Year r \<and> Country r \<in> set countries) data))
      else [])"

text \<open>
  Lines 70 to 196 for one interaction: the table handed to the map layer or to the line
  plot. \<^verbatim>\<open>filtered_data\<close> is computed before the visualization is chosen, as in the
  script.
\<close>

datatype chart_input =
  MapInput "rat option map_row list"
| LineInput "rat option data_row list"

definition production_land_view ::
  "dataset_choice \<Rightarrow> visualization_choice \<Rightarrow> (string \<Rightarrow> rat option) \<Rightarrow>
   (string \<Rightarrow> (rat \<times> rat) option) \<Rightarrow> cell data_row list \<Rightarrow> int \<Rightarrow> chart_input" where
  "production_land_view choice visualization parse geocode data year =
     (let countries = selected_countries choice;
          map_input = filtered_data parse geocode countries data year
      in case visualization of
           MapChoice \<Rightarrow> MapInput map_input
         | LineGraph \<Rightarrow> LineInput (line_graph_data choice parse countries data))"

fun input_years :: "chart_input \<Rightarrow> int list" where
  "input_years (MapInput rows) = map Year rows"
| "input_years (LineInput rows) = map Year rows"

section \<open>Ordering a table by a numeric column\<close>

text \<open>
  \<^verbatim>\<open>sort_values(by=column, ascending=False)\<close> puts the rows in descending order of
  the column, the rows with a missing cell last. Its default algorithm does not fix the
  order of rows with equal cells, so the views take the ordering as a function \<open>order\<close>
  of which only this is known: it permutes the rows, and in its result no row stands
  before a row with a greater cell. \<open>precedes a b\<close>: a row with cell \<open>a\<close> may stand
  before a row with cell \<open>b\<close>.
\<close>

definition precedes :: "rat option \<Rightarrow> rat option \<Rightarrow> bool" where
  "precedes a b =
     (case b of None \<Rightarrow> True | Some y \<Rightarrow> (case a of None \<Rightarrow> False | Some x \<Rightarrow> y \<le> x))"

definition descending :: "('r \<Rightarrow> rat option) \<Rightarrow> 'r list \<Rightarrow> bool" where
  "descending column rows = sorted_wrt (\<lambda>r s. precedes (column r) (column s)) rows"

definition sort_values_descending :: "('r \<Rightarrow> rat option) \<Rightarrow> ('r list \<Rightarrow> 'r list) \<Rightarrow> bool" where
  "sort_values_descending column order =
     (\<forall>rows. mset (order rows) = mset rows \<and> descending column (order rows))"

text \<open>
  One such ordering, the stable one (\<^verbatim>\<open>kind="stable"\<close>): rows with equal cells keep
  the order they had.
\<close>

fun insert_descending :: "('r \<Rightarrow> rat option) \<Rightarrow> 'r \<Rightarrow> 'r list \<Rightarrow> 'r list" where
  "insert_descending column r [] = [r]"
| "insert_descending column r (s # rows) =
     (if precedes (column r) (column s) then r # s # rows
      else s # insert_descending column r rows)"

definition sort_values_stable :: "('r \<Rightarrow> rat option) \<Rightarrow> 'r list \<Rightarrow> 'r list" where
  "sort_values_stable column rows = foldr (insert_descending column) rows []"

section \<open>Meat consumption: the histogram table\<close>

text \<open>
  Line 205: \<^verbatim>\<open>data.nlargest(10, 'Kilograms/capita')\<close>, the first \<open>n\<close> rows of the
  table in descending order of the column, rows with a missing cell last. The column is
  numeric: \<^verbatim>\<open>nlargest\<close> accepts no other.
\<close>

definition nlargest :: "('r list \<Rightarrow> 'r list) \<Rightarrow> nat \<Rightarrow> 'r list \<Rightarrow> 'r list" where
  "nlargest order n data = take n (order data)"

definition top_5 :: "(consumption_row list \<Rightarrow> consumption_row list) \<Rightarrow> consumption_row list \<Rightarrow> consumption_row list" where
  "top_5 order data = nlargest order 10 data"

section \<open>Obesity: the ten countries and their series\<close>

text \<open>
  Lines 222 to 230. \<^verbatim>\<open>data['Year'].max()\<close> of a table with no rows is the missing
  value, which equals no year. The \<^verbatim>\<open>Obesity\<close> column is numeric, as the script
  orders by it without a coercion. (Line 220 assigns \<^verbatim>\<open>top_10_countries\<close> a value that
  line 229 replaces before any use.)
\<close>

fun year_max :: "int list \<Rightarrow> int option" where
  "year_max [] = None"
| "year_max (y # ys) = (case year_max ys of None \<Rightarrow> Some y | Some m \<Rightarrow> Some (max y m))"

definition recent_year :: "obesity_row list \<Rightarrow> int option" where
  "recent_year data = year_max (map Year data)"

definition continents :: "string list" where
  "continents =
     [''World'', ''Asia'', ''Africa'', ''Europe'', ''North America'', ''South America'',
      ''Oceania'', ''Antarctica'', ''Asia (excl. China and India)'', ''Europe (excl. Russia)'',
      ''South America (excl. Brazil)'']"

definition recent_data :: "obesity_row list \<Rightarrow> obesity_row list" where
  "recent_data data =
     filter (\<lambda>r. Country r \<notin> set continents)
       (filter (\<lambda>r. Some (Year r) = recent_year data) data)"

definition top_10_countries :: "(obesity_row list \<Rightarrow> obesity_row list) \<Rightarrow> obesity_row list \<Rightarrow> string list" where
  "top_10_countries order data = take 10 (map Country (order (recent_data data)))"

definition filtered_df :: "(obesity_row list \<Rightarrow> obesity_row list) \<Rightarrow> obesity_row list \<Rightarrow> obesity_row list" where
  "filtered_df order data = filter (\<lambda>r. Country r \<in> set (top_10_countries order data)) data"

text \<open>
  Lines 232 to 238: what \<^verbatim>\<open>px.line\<close> is given, the table of the series and the range
  of the x axis, \<^verbatim>\<open>range_x=[1980, recent_year]\<close>.
\<close>

record line_figure =
  data_frame :: "obesity_row list"
  range_x :: "int \<times> int option"

definition obesity_figure :: "(obesity_row list \<Rightarrow> obesity_row list) \<Rightarrow> obesity_row list \<Rightarrow> line_figure" where
  "obesity_figure order data =
     \<lparr>data_frame = filtered_df order data, range_x = (1980, recent_year data)\<rparr>"

section \<open>Sample inputs\<close>

text \<open>
  Small tables and lookups on which the theorems below are instantiated. The sample
  lookup finds India and Brazil only; the sample conversion reads one string.
\<close>

definition sample_geocode :: "string \<Rightarrow> (rat \<times> rat) option" where
  "sample_geocode country =
     (if country = ''India'' then Some (21, 79)
      else if country = ''Brazil'' then Some (- 14, - 52)
      else None)"

definition sample_parse :: "string \<Rightarrow> rat option" where
  "sample_parse s = (if s = ''12.5'' then Some (25 / 2) else None)"

definition sample_production :: "cell data_row list" where
  "sample_production =
     [\<lparr>Country = ''India'', Year = 1990, Value = Num 5\<rparr>,
      \<lparr>Country = ''India'', Year = 1991, Value = Num 6\<rparr>,
      \<lparr>Country = ''Spain'', Year = 1990, Value = Num 4\<rparr>,
      \<lparr>Country = ''Brazil'', Year = 1990, Value = Str ''n/a''\<rparr>,
      \<lparr>Country = ''France'', Year = 1990, Value = Num 9\<rparr>,
      \<lparr>Country = ''Brazil'', Year = 1991, Value = Str ''12.5''\<rparr>]"

definition sample_land :: "cell data_row list" where
  "sample_land =
     [\<lparr>Country = ''India'', Year = 1500, Value = Num 100\<rparr>,
      \<lparr>Country = ''India'', Year = 1600, Value = Num 120\<rparr>,
      \<lparr>Country = ''China'', Year = 1600, Value = Num 300\<rparr>,
      \<lparr>Country = ''Brazil'', Year = 1600, Value = Str ''n/a''\<rparr>,
      \<lparr>Country = ''Spain'', Year = 1600, Value = Num 50\<rparr>,
      \<lparr>Country = ''India'', Year = 1700, Value = Num 150\<rparr>]"

text \<open>
  An obesity table with thirteen eligible rows in its most recent year, two aggregates and
  rows of earlier years; a consumption table with one row for each country, and one in
  which a country has two rows.
\<close>

definition sample_obesity :: "obesity_row list" where
  "sample_obesity =
     [\<lparr>Country = ''Nauru'', Year = 1975, Obesity = Some 40\<rparr>,
      \<lparr>Country = ''Chile'', Year = 1975, Obesity = Some 10\<rparr>,
      \<lparr>Country = ''World'', Year = 1975, Obesity = Some 5\<rparr>,
      \<lparr>Country = ''Nauru'', Year = 2000, Obesity = Some 55\<rparr>,
      \<lparr>Country = ''Egypt'', Year = 2016, Obesity = Some 32\<rparr>,
      \<lparr>Country = ''Nauru'', Year = 2016, Obesity = Some 61\<rparr>,
      \<lparr>Country = ''World'', Year = 2016, Obesity = Some 70\<rparr>,
      \<lparr>Country = ''Palau'', Year = 2016, Obesity = Some 55\<rparr>,
      \<lparr>Country = ''Niue'', Year = 2016, Obesity = None\<rparr>,
      \<lparr>Country = ''Tonga'', Year = 2016, Obesity = Some 48\<rparr>,
      \<lparr>Country = ''Chile'', Year = 2016, Obesity = Some 28\<rparr>,
      \<lparr>Country = ''Samoa'', Year = 2016, Obesity = Some 47\<rparr>,
      \<lparr>Country = ''Kuwait'', Year = 2016, Obesity = Some 38\<rparr>,
      \<lparr>Country = ''Asia'', Year = 2016, Obesity = Some 99\<rparr>,
      \<lparr>Country = ''Qatar'', Year = 2016, Obesity = Some 35\<rparr>,
      \<lparr>Country = ''Libya'', Year = 2016, Obesity = Some 33\<rparr>,
      \<lparr>Country = ''Jordan'', Year = 2016, Obesity = Some 36\<rparr>,
      \<lparr>Country = ''Fiji'', Year = 2016, Obesity = Some 30\<rparr>,
      \<lparr>Country = ''Turkey'', Year = 2016, Obesity = Some (65 / 2)\<rparr>]"

definition sample_consumption :: "consumption_row list" where
  "sample_consumption =
     [\<lparr>Country = ''Chile'', Kilograms_capita = Some 20\<rparr>,
      \<lparr>Country = ''Argentina'', Kilograms_capita = Some 47\<rparr>,
      \<lparr>Country = ''Japan'', Kilograms_capita = None\<rparr>,
      \<lparr>Country = ''Brazil'', Kilograms_capita = Some 35\<rparr>,
      \<lparr>Country = ''Israel'', Kilograms_capita = Some 23\<rparr>,
      \<lparr>Country = ''United States'', Kilograms_capita = Some 38\<rparr>,
      \<lparr>Country = ''Australia'', Kilograms_capita = Some 28\<rparr>,
      \<lparr>Country = ''Canada'', Kilograms_capita = Some (51 / 2)\<rparr>,
      \<lparr>Country = ''Uruguay'', Kilograms_capita = Some 33\<rparr>,
      \<lparr>Country = ''India'', Kilograms_capita = Some 1\<rparr>,
      \<lparr>Country = ''Mexico'', Kilograms_capita = Some 15\<rparr>,
      \<lparr>Country = ''Norway'', Kilograms_capita = Some 18\<rparr>]"

definition sample_consumption_repeated :: "consumption_row list" where
  "sample_consumption_repeated =
     [\<lparr>Country = ''Brazil'', Kilograms_capita = Some 35\<rparr>,
      \<lparr>Country = ''Argentina'', Kilograms_capita = Some 47\<rparr>,
      \<lparr>Country = ''Argentina'', Kilograms_capita = Some 46\<rparr>]"

text \<open>
  Headers as the remote files may have them; those of the consumption file are set in
  double quotes.
\<close>

definition sample_meat_header :: "string list" where
  "sample_meat_header = [''Entity'', ''Code'', ''Year'', meat_raw_name]"

definition sample_land_header :: "string list" where
  "sample_land_header = [''Entity'', ''Code'', ''Year'', ''Land use: Agriculture'']"

definition sample_obesity_header :: "string list" where
  "sample_obesity_header = [''Entity'', ''Code'', ''Year'', obesity_raw_name]"

definition sample_consumption_header :: "string list" where
  "sample_consumption_header =
     [CHR 0x22 # ''Country'' @ [CHR 0x22],
      '' '' @ CHR 0x22 # ''Kilograms/capita'' @ [CHR 0x22]]"

text \<open>
  Two \<^verbatim>\<open>float64\<close> tables: one with missing cells and with two cells of the same
  infinity in a group, one with both infinities in a group.
\<close>

definition sample_float_table :: "float64 data_row list" where
  "sample_float_table =
     [\<lparr>Country = ''India'', Year = 1990, Value = Finite 5\<rparr>,
      \<lparr>Country = ''China'', Year = 1991, Value = PosInf\<rparr>,
      \<lparr>Country = ''India'', Year = 1990, Value = NotANumber\<rparr>,
      \<lparr>Country = ''Brazil'', Year = 1990, Value = NotANumber\<rparr>,
      \<lparr>Country = ''India'', Year = 1990, Value = Finite (7 / 2)\<rparr>,
      \<lparr>Country = ''China'', Year = 1991, Value = PosInf\<rparr>]"

definition sample_infinite_table :: "float64 data_row list" where
  "sample_infinite_table =
     [\<lparr>Country = ''India'', Year = 1990, Value = PosInf\<rparr>,
      \<lparr>Country = ''India'', Year = 1990, Value = NegInf\<rparr>]"

section \<open>Properties of the coordinate resolver\<close>

lemma get_country_coordinates_map:
  "get_country_coordinates geocode country_list =
     map (\<lambda>c. (c, map_option fst (geocode c), map_option snd (geocode c))) country_list"
  by (induction country_list) (auto split: option.splits)

text \<open>
  Claim C2. For every list of country names and every lookup, the resolver returns as
  many rows as names, the countries of the rows are the names in their order, the row of
  a name the lookup does not find has both coordinates missing, the row of a name it
  finds has both coordinates of the location, and in no row is exactly one of the two
  coordinates missing.
\<close>

theorem get_country_coordinates_rows:
  "length (get_country_coordinates geocode country_list) = length country_list \<and>
   map fst (get_country_coordinates geocode country_list) = country_list \<and>
   (\<forall>i < length country_list.
      (geocode (country_list ! i) = None \<longrightarrow>
         get_country_coordinates geocode country_list ! i = (country_list ! i, None, None)) \<and>
      (\<forall>latitude longitude. geocode (country_list ! i) = Some (latitude, longitude) \<longrightarrow>
         get_country_coordinates geocode country_list ! i =
           (country_list ! i, Some latitude, Some longitude))) \<and>
   (\<forall>row \<in> set (get_country_coordinates geocode country_list).
      (fst (snd row) = None) = (snd (snd row) = None))"
  by (auto simp: get_country_coordinates_map comp_def)

theorem get_country_coordinates_rows_witness:
  "length (get_country_coordinates sample_geocode [''India'', ''Atlantis'']) = 2 \<and>
   get_country_coordinates sample_geocode [''India'', ''Atlantis''] ! 0 =
     (''India'', Some 21, Some 79) \<and>
   get_country_coordinates sample_geocode [''India'', ''Atlantis''] ! 1 =
     (''Atlantis'', None, None)"
proof -
  have found: "sample_geocode ([''India'', ''Atlantis''] ! 0) = Some (21, 79)"
    by (simp add: sample_geocode_def)
  have missing: "sample_geocode ([''India'', ''Atlantis''] ! 1) = None"
    by (simp add: sample_geocode_def)
  from get_country_coordinates_rows [of sample_geocode "[''India'', ''Atlantis'']"]
    found missing
  show ?thesis by simp
qed

section \<open>Properties of the filtering\<close>

lemma partners_cases:
  "(case ps of [] \<Rightarrow> a | p # qs \<Rightarrow> f (p # qs)) = (if ps = [] then a else f ps)"
  by (cases ps) simp_all

lemma merge_left_iff:
  "m \<in> set (merge_left rows coordinates) \<longleftrightarrow>
     (\<exists>r \<in> set rows.
        (\<exists>c \<in> set coordinates. fst c = Country r \<and>
           m = with_coordinates r (fst (snd c)) (snd (snd c))) \<or>
        ((\<forall>c \<in> set coordinates. fst c \<noteq> Country r) \<and> m = with_coordinates r None None))"
proof -
  have one: "m \<in> set (if filter (\<lambda>c. fst c = k) coordinates = [] then [w None None]
                 else map (\<lambda>c. w (fst (snd c)) (snd (snd c)))
                        (filter (\<lambda>c. fst c = k) coordinates)) \<longleftrightarrow>
     ((\<exists>c \<in> set coordinates. fst c = k \<and> m = w (fst (snd c)) (snd (snd c))) \<or>
      ((\<forall>c \<in> set coordinates. fst c \<noteq> k) \<and> m = w None None))" for k w
    by (cases "filter (\<lambda>c. fst c = k) coordinates = []") (auto simp: filter_empty_conv)
  show ?thesis
    unfolding merge_left_def partners_cases case_prod_beta set_concat set_map
    by (simp only: UN_iff image_iff bex_simps one)
qed

lemma merge_left_row:
  assumes "m \<in> set (merge_left rows coordinates)"
  shows "\<exists>r \<in> set rows. Country m = Country r \<and> Year m = Year r \<and> Value m = Value r"
  using assms unfolding merge_left_iff
  by (auto simp: with_coordinates_def)

lemma merge_left_missing:
  assumes "m \<in> set (merge_left rows (get_country_coordinates geocode country_list))"
      and "geocode (Country m) = None"
  shows "Latitude m = None \<and> Longitude m = None"
  using assms unfolding merge_left_iff
  by (auto simp: with_coordinates_def get_country_coordinates_map)

lemma filtered_data_numeric_row:
  assumes "m \<in> set (filtered_data_numeric parse geocode countries data year)"
  shows "Year m = year \<and> Country m \<in> set countries"
proof -
  from assms obtain m' where m': "m' \<in> set (filtered_data_merged geocode countries data year)"
    and eq: "m = to_numeric_map_row parse m'"
    by (auto simp: filtered_data_numeric_def)
  from m' obtain r where "r \<in> set (filtered_data_year_country countries data year)"
    and "Country m' = Country r" "Year m' = Year r"
    unfolding filtered_data_merged_def using merge_left_row by blast
  then show ?thesis using eq
    by (simp add: filtered_data_year_country_def to_numeric_map_row_def)
qed

lemma filtered_data_row:
  assumes "m \<in> set (filtered_data parse geocode countries data year)"
  shows "Year m = year \<and> Country m \<in> set countries"
  using assms filtered_data_numeric_row [of m parse geocode countries data year]
  by (simp add: filtered_data_def dropna_def)

lemma sample_production_map_input:
  "filtered_data sample_parse sample_geocode (selected_countries MeatProduction)
     sample_production 1990 =
   [\<lparr>Country = ''India'', Year = 1990, Value = Some 5,
      Latitude = Some 21, Longitude = Some 79\<rparr>,
    \<lparr>Country = ''Brazil'', Year = 1990, Value = None,
      Latitude = Some (- 14), Longitude = Some (- 52)\<rparr>]"
  by code_simp

text \<open>
  Claim C1. For every table, year and list of countries of interest, every row that
  the two filters of lines 104 and 105 keep, and every row of the finished map input
  \<^verbatim>\<open>filtered_data\<close>, has the selected year and a country of the list.
\<close>

theorem filtered_data_predicates:
  "(\<forall>r \<in> set (filtered_data_year_country countries data year).
      Year r = year \<and> Country r \<in> set countries) \<and>
   (\<forall>r \<in> set (filtered_data parse geocode countries data year).
      Year r = year \<and> Country r \<in> set countries)"
proof (intro conjI ballI)
  fix r assume "r \<in> set (filtered_data parse geocode countries data year)"
  then have "r \<in> set (filtered_data_numeric parse geocode countries data year)"
    by (simp add: filtered_data_def dropna_def)
  then show "Year r = year" "Country r \<in> set countries"
    using filtered_data_numeric_row by blast+
qed (simp_all add: filtered_data_year_country_def)

theorem filtered_data_predicates_witness:
  "\<lparr>Country = ''Brazil'', Year = 1990, Value = None,
      Latitude = Some (- 14), Longitude = Some (- 52)\<rparr>
     \<in> set (filtered_data sample_parse sample_geocode (selected_countries MeatProduction)
          sample_production 1990) \<and>
   ''Brazil'' \<in> set (selected_countries MeatProduction) \<and>
   \<lparr>Country = ''Brazil'', Year = 1990, Value = Str ''n/a''\<rparr>
     \<in> set (filtered_data_year_country (selected_countries MeatProduction)
          sample_production 1990)"
proof -
  let ?m = "\<lparr>Country = ''Brazil'', Year = 1990, Value = None,
      Latitude = Some (- 14), Longitude = Some (- 52)\<rparr> :: rat option map_row"
  have row: "?m \<in> set (filtered_data sample_parse sample_geocode
      (selected_countries MeatProduction) sample_production 1990)"
    unfolding sample_production_map_input by simp
  have raw: "\<lparr>Country = ''Brazil'', Year = 1990, Value = Str ''n/a''\<rparr>
     \<in> set (filtered_data_year_country (selected_countries MeatProduction)
          sample_production 1990)"
    by (simp add: filtered_data_year_country_def sample_production_def)
  from filtered_data_predicates [of "selected_countries MeatProduction" sample_production
      1990 sample_parse sample_geocode] row
  have "Country ?m \<in> set (selected_countries MeatProduction)" by blast
  with row raw show ?thesis by simp
qed

section \<open>Properties of the line-chart aggregation\<close>

lemma group_key_group_sum: "group_key (group_sum arith rows k) = k"
  by (simp add: group_key_def group_sum_def)

lemma map_group_key_groupby_sum:
  "map group_key (groupby_sum arith rows) = sort (remdups (map group_key rows))"
  by (simp add: groupby_sum_def comp_def group_key_group_sum)

lemma groupby_sum_keys:
  "group_key ` set (groupby_sum arith rows) = group_key ` set rows"
proof -
  have "set (map group_key (groupby_sum arith rows)) = set (map group_key rows)"
    unfolding map_group_key_groupby_sum by simp
  then show ?thesis by simp
qed

lemma groupby_sum_row:
  assumes "g \<in> set (groupby_sum arith rows)"
  shows "\<exists>r \<in> set rows. Year g = Year r \<and> Country g = Country r"
proof -
  from assms have "group_key g \<in> group_key ` set rows"
    using groupby_sum_keys by blast
  then show ?thesis by (auto simp: group_key_def)
qed

lemma filter_unique_key:
  assumes "distinct ks" and "k \<in> set ks" and "\<And>j. key (f j) = j"
  shows "filter (\<lambda>r. key r = k) (map f ks) = [f k]"
  using assms(1,2)
proof (induction ks)
  case Nil
  then show ?case by simp
next
  case (Cons j ks)
  show ?case
  proof (cases "j = k")
    case True
    with Cons.prems have "k \<notin> set ks" by simp
    then have "filter (\<lambda>r. key r = k) (map f ks) = []"
      by (auto simp: filter_empty_conv assms(3))
    with True show ?thesis by (simp add: assms(3))
  next
    case False
    with Cons show ?thesis by (simp add: assms(3))
  qed
qed

text \<open>The second pass: every group is one row, whose sum is its own cell, or the zero
  if that cell is missing.\<close>

lemma group_sum_second_pass:
  assumes zero: "\<And>v. \<not> is_nan arith v \<Longrightarrow> add_value arith (zero_value arith) v = v"
      and k: "k \<in> set (sort (remdups (map group_key rows)))"
  shows "group_sum arith (groupby_sum arith rows) k =
           (if is_nan arith (Value (group_sum arith rows k))
            then (group_sum arith rows k)\<lparr>Value := zero_value arith\<rparr>
            else group_sum arith rows k)"
proof -
  have "distinct (sort (remdups (map group_key rows)))" by simp
  then have "filter (\<lambda>r. group_key r = k) (groupby_sum arith rows) = [group_sum arith rows k]"
    unfolding groupby_sum_def
    using k by (rule filter_unique_key) (rule group_key_group_sum)
  then show ?thesis
    using zero [of "Value (group_sum arith rows k)"]
    by (simp add: group_sum_def)
qed

lemma groupby_sum_second_pass:
  assumes "\<And>v. \<not> is_nan arith v \<Longrightarrow> add_value arith (zero_value arith) v = v"
  shows "groupby_sum arith (groupby_sum arith rows) =
           map (\<lambda>g. if is_nan arith (Value g) then g\<lparr>Value := zero_value arith\<rparr> else g)
             (groupby_sum arith rows)"
proof -
  let ?ks = "sort (remdups (map group_key rows))"
  have keys: "sort (remdups (map group_key (groupby_sum arith rows))) = ?ks"
    unfolding map_group_key_groupby_sum
    by (simp add: distinct_remdups_id sort_key_id_if_sorted)
  have "map (group_sum arith (groupby_sum arith rows)) ?ks =
        map (\<lambda>k. if is_nan arith (Value (group_sum arith rows k))
                 then (group_sum arith rows k)\<lparr>Value := zero_value arith\<rparr>
                 else group_sum arith rows k) ?ks"
    using group_sum_second_pass [OF assms] by (intro map_cong) simp_all
  then show ?thesis
    unfolding groupby_sum_def [of arith "groupby_sum arith rows"] keys
    by (simp add: groupby_sum_def comp_def)
qed

lemma float_add_zero: "v \<noteq> NotANumber \<Longrightarrow> float_add (Finite 0) v = v"
  by (cases v) simp_all

lemma sample_float_table_sums:
  "groupby_sum float_arithmetic sample_float_table =
   [\<lparr>Country = ''Brazil'', Year = 1990, Value = Finite 0\<rparr>,
    \<lparr>Country = ''India'', Year = 1990, Value = Finite (17 / 2)\<rparr>,
    \<lparr>Country = ''China'', Year = 1991, Value = PosInf\<rparr>]"
  by code_simp

text \<open>
  Claim C6, as the code has it. Grouping by year and country and summing is idempotent
  on every table in whose first aggregation no sum is \<^verbatim>\<open>NaN\<close>: applied to its own
  result, the aggregation returns that result. This holds for every number type in which
  adding a number that is not \<^verbatim>\<open>NaN\<close> to zero returns that number, whatever its
  rounding. On every table the second aggregation is the first with each sum that is
  \<^verbatim>\<open>NaN\<close> replaced by zero.
\<close>

theorem groupby_sum_idempotent_without_nan:
  assumes "\<And>v. \<not> is_nan arith v \<Longrightarrow> add_value arith (zero_value arith) v = v"
  shows "((\<forall>g \<in> set (groupby_sum arith rows). \<not> is_nan arith (Value g)) \<longrightarrow>
            groupby_sum arith (groupby_sum arith rows) = groupby_sum arith rows) \<and>
         groupby_sum arith (groupby_sum arith rows) =
           map (\<lambda>g. if is_nan arith (Value g) then g\<lparr>Value := zero_value arith\<rparr> else g)
             (groupby_sum arith rows)"
proof -
  have second: "groupby_sum arith (groupby_sum arith rows) =
      map (\<lambda>g. if is_nan arith (Value g) then g\<lparr>Value := zero_value arith\<rparr> else g)
        (groupby_sum arith rows)"
    using assms by (rule groupby_sum_second_pass)
  have "groupby_sum arith (groupby_sum arith rows) = groupby_sum arith rows"
    if "\<forall>g \<in> set (groupby_sum arith rows). \<not> is_nan arith (Value g)"
  proof -
    have "map (\<lambda>g. if is_nan arith (Value g) then g\<lparr>Value := zero_value arith\<rparr> else g)
            (groupby_sum arith rows) = map (\<lambda>g. g) (groupby_sum arith rows)"
      using that by (intro map_cong) simp_all
    with second show ?thesis by simp
  qed
  with second show ?thesis by blast
qed

text \<open>
  A group with both infinities: its sum is \<^verbatim>\<open>NaN\<close>, which the second aggregation
  skips, so that its sum there is 0.
\<close>

theorem groupby_sum_infinities:
  "groupby_sum float_arithmetic sample_infinite_table =
     [\<lparr>Country = ''India'', Year = 1990, Value = NotANumber\<rparr>] \<and>
   groupby_sum float_arithmetic (groupby_sum float_arithmetic sample_infinite_table) =
     [\<lparr>Country = ''India'', Year = 1990, Value = Finite 0\<rparr>] \<and>
   groupby_sum float_arithmetic (groupby_sum float_arithmetic sample_infinite_table) \<noteq>
     groupby_sum float_arithmetic sample_infinite_table"
proof -
  have first: "groupby_sum float_arithmetic sample_infinite_table =
     [\<lparr>Country = ''India'', Year = 1990, Value = NotANumber\<rparr>]"
    by code_simp
  have second: "groupby_sum float_arithmetic
       [\<lparr>Country = ''India'', Year = 1990, Value = NotANumber\<rparr>] =
     [\<lparr>Country = ''India'', Year = 1990, Value = Finite 0\<rparr>]"
    by code_simp
  show ?thesis unfolding first second by simp
qed

theorem groupby_sum_idempotent_without_nan_witness:
  "groupby_sum float_arithmetic sample_float_table =
     [\<lparr>Country = ''Brazil'', Year = 1990, Value = Finite 0\<rparr>,
      \<lparr>Country = ''India'', Year = 1990, Value = Finite (17 / 2)\<rparr>,
      \<lparr>Country = ''China'', Year = 1991, Value = PosInf\<rparr>] \<and>
   groupby_sum float_arithmetic (groupby_sum float_arithmetic sample_float_table) =
     groupby_sum float_arithmetic sample_float_table"
proof -
  have zero: "add_value float_arithmetic (zero_value float_arithmetic) v = v"
    if "\<not> is_nan float_arithmetic v" for v
    using that by (simp add: float_arithmetic_def float_add_zero)
  have sums: "\<forall>g \<in> set (groupby_sum float_arithmetic sample_float_table).
      \<not> is_nan float_arithmetic (Value g)"
    unfolding sample_float_table_sums by (simp add: float_arithmetic_def)
  from groupby_sum_idempotent_without_nan [of float_arithmetic sample_float_table, OF zero] sums
  have "groupby_sum float_arithmetic (groupby_sum float_arithmetic sample_float_table) =
     groupby_sum float_arithmetic sample_float_table"
    by blast
  with sample_float_table_sums show ?thesis by simp
qed

section \<open>Properties of the numeric coercion\<close>

lemma to_numeric_map_row_fields:
  "Country (to_numeric_map_row parse r) = Country r"
  "Year (to_numeric_map_row parse r) = Year r"
  "Latitude (to_numeric_map_row parse r) = Latitude r"
  "Longitude (to_numeric_map_row parse r) = Longitude r"
  "Value (to_numeric_map_row parse r) = to_numeric parse (Value r)"
  by (simp_all add: to_numeric_map_row_def)

lemma sample_production_merged:
  "filtered_data_merged sample_geocode (selected_countries MeatProduction) sample_production 1990 =
   [\<lparr>Country = ''India'', Year = 1990, Value = Num 5, Latitude = Some 21, Longitude = Some 79\<rparr>,
    \<lparr>Country = ''Spain'', Year = 1990, Value = Num 4, Latitude = None, Longitude = None\<rparr>,
    \<lparr>Country = ''Brazil'', Year = 1990, Value = Str ''n/a'',
      Latitude = Some (- 14), Longitude = Some (- 52)\<rparr>]"
  by code_simp

lemma sample_production_numeric:
  "filtered_data_numeric sample_parse sample_geocode (selected_countries MeatProduction) sample_production 1990 =
   [\<lparr>Country = ''India'', Year = 1990, Value = Some 5, Latitude = Some 21, Longitude = Some 79\<rparr>,
    \<lparr>Country = ''Spain'', Year = 1990, Value = Some 4, Latitude = None, Longitude = None\<rparr>,
    \<lparr>Country = ''Brazil'', Year = 1990, Value = None,
      Latitude = Some (- 14), Longitude = Some (- 52)\<rparr>]"
  by code_simp

text \<open>
  Claim C5. The coercion of line 113 or 115 keeps every row of the merged table and
  changes nothing but the value column. There, a cell holding a string that denotes no
  number becomes the missing value (not zero), a cell holding a string that denotes a
  number becomes that number, a number stays the number it is, and a missing cell stays
  missing. The coercion is a total function: no cell makes it fail.
\<close>

theorem to_numeric_coercion:
  "length (filtered_data_numeric parse geocode countries data year) =
     length (filtered_data_merged geocode countries data year) \<and>
   (\<forall>i < length (filtered_data_merged geocode countries data year).
      (\<forall>s. Value (filtered_data_merged geocode countries data year ! i) = Str s \<and> parse s = None \<longrightarrow>
         Value (filtered_data_numeric parse geocode countries data year ! i) = None \<and>
         Value (filtered_data_numeric parse geocode countries data year ! i) \<noteq> Some 0) \<and>
      (\<forall>s x. Value (filtered_data_merged geocode countries data year ! i) = Str s \<and> parse s = Some x \<longrightarrow>
         Value (filtered_data_numeric parse geocode countries data year ! i) = Some x) \<and>
      (\<forall>x. Value (filtered_data_merged geocode countries data year ! i) = Num x \<longrightarrow>
         Value (filtered_data_numeric parse geocode countries data year ! i) = Some x) \<and>
      (Value (filtered_data_merged geocode countries data year ! i) = NaN \<longrightarrow>
         Value (filtered_data_numeric parse geocode countries data year ! i) = None) \<and>
      Country (filtered_data_numeric parse geocode countries data year ! i) =
        Country (filtered_data_merged geocode countries data year ! i) \<and>
      Year (filtered_data_numeric parse geocode countries data year ! i) =
        Year (filtered_data_merged geocode countries data year ! i) \<and>
      Latitude (filtered_data_numeric parse geocode countries data year ! i) =
        Latitude (filtered_data_merged geocode countries data year ! i) \<and>
      Longitude (filtered_data_numeric parse geocode countries data year ! i) =
        Longitude (filtered_data_merged geocode countries data year ! i))"
  by (simp add: filtered_data_numeric_def to_numeric_map_row_fields)

theorem to_numeric_coercion_witness:
  "Value (filtered_data_merged sample_geocode (selected_countries MeatProduction)
      sample_production 1990 ! 2) = Str ''n/a'' \<and>
   sample_parse ''n/a'' = None \<and>
   Value (filtered_data_numeric sample_parse sample_geocode (selected_countries MeatProduction)
      sample_production 1990 ! 2) = None \<and>
   Value (filtered_data_merged sample_geocode (selected_countries MeatProduction)
      sample_production 1990 ! 0) = Num 5 \<and>
   Value (filtered_data_numeric sample_parse sample_geocode (selected_countries MeatProduction)
      sample_production 1990 ! 0) = Some 5"
proof -
  let ?before = "filtered_data_merged sample_geocode (selected_countries MeatProduction)
      sample_production 1990"
  have len: "2 < length ?before" "0 < length ?before"
    unfolding sample_production_merged by simp_all
  have text_cell: "Value (?before ! 2) = Str ''n/a'' \<and> sample_parse ''n/a'' = None"
    unfolding sample_production_merged by (simp add: sample_parse_def)
  have number_cell: "Value (?before ! 0) = Num 5"
    unfolding sample_production_merged by simp
  from to_numeric_coercion [of sample_parse sample_geocode "selected_countries MeatProduction"
      sample_production 1990] len text_cell number_cell
  show ?thesis by blast
qed

section \<open>The year 1600 in the agricultural views\<close>

lemma line_graph_data_land_row:
  assumes "g \<in> set (line_graph_data AgriculturalLandUse parse countries data)"
  shows "1600 \<le> Year g \<and> Country g \<in> set countries"
proof -
  from assms obtain r where
    "r \<in> set (map (to_numeric_data_row parse)
         (filter (\<lambda>r. 1600 \<le> Year r \<and> Country r \<in> set countries) data))"
    and "Year g = Year r" "Country g = Country r"
    unfolding line_graph_data_def using groupby_sum_row by fastforce
  then show ?thesis by (auto simp: to_numeric_data_row_def)
qed

lemma sample_land_map_input:
  "filtered_data sample_parse sample_geocode (selected_countries AgriculturalLandUse) sample_land 1600 =
   [\<lparr>Country = ''India'', Year = 1600, Value = Some 120, Latitude = Some 21, Longitude = Some 79\<rparr>,
    \<lparr>Country = ''Brazil'', Year = 1600, Value = None,
      Latitude = Some (- 14), Longitude = Some (- 52)\<rparr>]"
  by code_simp

lemma sample_land_line_input:
  "line_graph_data AgriculturalLandUse sample_parse (selected_countries AgriculturalLandUse) sample_land =
   [\<lparr>Country = ''Brazil'', Year = 1600, Value = Some 0\<rparr>,
    \<lparr>Country = ''China'', Year = 1600, Value = Some 300\<rparr>,
    \<lparr>Country = ''India'', Year = 1600, Value = Some 120\<rparr>,
    \<lparr>Country = ''India'', Year = 1700, Value = Some 150\<rparr>]"
  by code_simp

text \<open>
  Claim C9. With the agricultural land dataset and the year 1600 selected, no row of the
  map input has a year before 1600; and whatever year is selected and whatever years the
  table holds, no row of the line-chart input has a year before 1600.
\<close>

theorem land_use_year_floor:
  "(\<forall>y \<in> set (input_years (production_land_view AgriculturalLandUse MapChoice
                   parse geocode data 1600)). \<not> y < 1600) \<and>
   (\<forall>y \<in> set (input_years (production_land_view AgriculturalLandUse LineGraph
                   parse geocode data year)). \<not> y < 1600)"
proof (intro conjI ballI)
  fix y
  assume "y \<in> set (input_years (production_land_view AgriculturalLandUse MapChoice
                   parse geocode data 1600))"
  then obtain m where "m \<in> set (filtered_data parse geocode
      (selected_countries AgriculturalLandUse) data 1600)" and "y = Year m"
    by (auto simp: production_land_view_def)
  then have "y = 1600"
    using filtered_data_row by blast
  then show "\<not> y < 1600" by simp
next
  fix y
  assume "y \<in> set (input_years (production_land_view AgriculturalLandUse LineGraph
                   parse geocode data year))"
  then obtain g where "g \<in> set (line_graph_data AgriculturalLandUse parse
      (selected_countries AgriculturalLandUse) data)" and "y = Year g"
    by (auto simp: production_land_view_def)
  then show "\<not> y < 1600"
    using line_graph_data_land_row by fastforce
qed

theorem land_use_year_floor_witness:
  "input_years (production_land_view AgriculturalLandUse MapChoice
      sample_parse sample_geocode sample_land 1600) = [1600, 1600] \<and>
   input_years (production_land_view AgriculturalLandUse LineGraph
      sample_parse sample_geocode sample_land 1600) = [1600, 1600, 1600, 1700] \<and>
   \<not> (1700 :: int) < 1600"
proof -
  have map_years: "input_years (production_land_view AgriculturalLandUse MapChoice
      sample_parse sample_geocode sample_land 1600) = [1600, 1600]"
    by (simp add: production_land_view_def sample_land_map_input del: selected_countries.simps)
  have line_years: "input_years (production_land_view AgriculturalLandUse LineGraph
      sample_parse sample_geocode sample_land 1600) = [1600, 1600, 1600, 1700]"
    by (simp add: production_land_view_def sample_land_line_input del: selected_countries.simps)
  have "1700 \<in> set (input_years (production_land_view AgriculturalLandUse LineGraph
      sample_parse sample_geocode sample_land 1600))"
    unfolding line_years by simp
  with land_use_year_floor [of sample_parse sample_geocode sample_land 1600]
  have "\<not> (1700 :: int) < 1600" by blast
  with map_years line_years show ?thesis by simp
qed

section \<open>Missing coordinates and the two views\<close>

text \<open>
  Claim C10. The line-chart input does not depend on the lookup: with any two lookups,
  the line view of the same table is the same, as it is computed from the loaded table.
  The map input is the merged and coerced table without the rows that lack a latitude
  or a longitude, so it holds no row of a country that the lookup did not find.
\<close>

theorem line_input_frame:
  "production_land_view choice LineGraph parse geocode data year =
     production_land_view choice LineGraph parse geocode' data year \<and>
   production_land_view choice LineGraph parse geocode data year =
     LineInput (line_graph_data choice parse (selected_countries choice) data) \<and>
   production_land_view choice MapChoice parse geocode data year =
     MapInput (filter (\<lambda>r. Latitude r \<noteq> None \<and> Longitude r \<noteq> None)
       (filtered_data_numeric parse geocode (selected_countries choice) data year)) \<and>
   (\<forall>r \<in> set (filtered_data parse geocode (selected_countries choice) data year).
      geocode (Country r) \<noteq> None)"
proof -
  have "geocode (Country r) \<noteq> None"
    if "r \<in> set (filtered_data parse geocode (selected_countries choice) data year)" for r
  proof
    assume none: "geocode (Country r) = None"
    from that have present: "Latitude r \<noteq> None"
      and "r \<in> set (filtered_data_numeric parse geocode (selected_countries choice) data year)"
      by (simp_all add: filtered_data_def dropna_def)
    then obtain m where m: "m \<in> set (filtered_data_merged geocode (selected_countries choice) data year)"
      and r: "r = to_numeric_map_row parse m"
      by (auto simp: filtered_data_numeric_def)
    from none r have "geocode (Country m) = None" by (simp add: to_numeric_map_row_fields)
    with m have "Latitude m = None"
      unfolding filtered_data_merged_def using merge_left_missing by blast
    with r present show False by (simp add: to_numeric_map_row_fields)
  qed
  then show ?thesis
    by (simp add: production_land_view_def filtered_data_def dropna_def)
qed

theorem line_input_frame_witness:
  "production_land_view MeatProduction LineGraph sample_parse sample_geocode
      sample_production 1990 =
   production_land_view MeatProduction LineGraph sample_parse (\<lambda>country. None)
      sample_production 1990 \<and>
   \<lparr>Country = ''India'', Year = 1990, Value = Some 5, Latitude = Some 21, Longitude = Some 79\<rparr>
     \<in> set (filtered_data sample_parse sample_geocode (selected_countries MeatProduction)
          sample_production 1990) \<and>
   sample_geocode ''India'' \<noteq> None \<and>
   filtered_data sample_parse (\<lambda>country. None) (selected_countries MeatProduction)
      sample_production 1990 = []"
proof -
  let ?m = "\<lparr>Country = ''India'', Year = 1990, Value = Some 5,
      Latitude = Some 21, Longitude = Some 79\<rparr> :: rat option map_row"
  have row: "?m \<in> set (filtered_data sample_parse sample_geocode
      (selected_countries MeatProduction) sample_production 1990)"
    unfolding sample_production_map_input by simp
  have none: "filtered_data sample_parse (\<lambda>country. None) (selected_countries MeatProduction)
      sample_production 1990 = []"
    by code_simp
  from line_input_frame [of MeatProduction sample_parse sample_geocode sample_production 1990
      "\<lambda>country. None"] row
  have "production_land_view MeatProduction LineGraph sample_parse sample_geocode
      sample_production 1990 =
   production_land_view MeatProduction LineGraph sample_parse (\<lambda>country. None)
      sample_production 1990" and "sample_geocode (Country ?m) \<noteq> None"
    by blast+
  with row none show ?thesis by simp
qed

section \<open>Properties of the ordering\<close>

lemma precedes_total: "precedes a b \<or> precedes b a"
  by (auto simp: precedes_def split: option.splits)

lemma precedes_trans: "precedes a b \<Longrightarrow> precedes b c \<Longrightarrow> precedes a c"
  by (auto simp: precedes_def split: option.splits)

lemma mset_insert_descending:
  "mset (insert_descending column r rows) = add_mset r (mset rows)"
  by (induction rows) simp_all

lemma set_insert_descending:
  "set (insert_descending column r rows) = insert r (set rows)"
  by (induction rows) auto

lemma descending_insert_descending:
  assumes "descending column rows"
  shows "descending column (insert_descending column r rows)"
  using assms
proof (induction rows)
  case Nil
  then show ?case by (simp add: descending_def)
next
  case (Cons s rows)
  show ?case
  proof (cases "precedes (column r) (column s)")
    case True
    with Cons.prems show ?thesis
      by (auto simp: descending_def intro: precedes_trans)
  next
    case False
    then have "precedes (column s) (column r)"
      using precedes_total by blast
    with Cons False show ?thesis
      by (auto simp: descending_def set_insert_descending)
  qed
qed

lemma sort_values_stable_descending:
  "sort_values_descending column (sort_values_stable column)"
proof -
  have "mset (sort_values_stable column rows) = mset rows \<and>
        descending column (sort_values_stable column rows)" for rows :: "'a list"
  proof (induction rows)
    case Nil
    then show ?case by (simp add: sort_values_stable_def descending_def)
  next
    case (Cons r rows)
    then show ?case
      using descending_insert_descending [of column "sort_values_stable column rows" r]
      by (simp add: sort_values_stable_def mset_insert_descending)
  qed
  then show ?thesis by (simp add: sort_values_descending_def)
qed

lemma order_mset:
  "sort_values_descending column order \<Longrightarrow> mset (order rows) = mset rows"
  by (simp add: sort_values_descending_def)

lemma order_descending:
  "sort_values_descending column order \<Longrightarrow> descending column (order rows)"
  by (simp add: sort_values_descending_def)

lemma order_length:
  "sort_values_descending column order \<Longrightarrow> length (order rows) = length rows"
  using order_mset [of column order rows] by (metis size_mset)

lemma order_set:
  "sort_values_descending column order \<Longrightarrow> set (order rows) = set rows"
  using order_mset [of column order rows] by (metis set_mset_mset)

lemma descending_take: "descending column rows \<Longrightarrow> descending column (take n rows)"
  by (simp add: descending_def sorted_wrt_take)

lemma descending_take_drop:
  assumes "descending column rows" and "s \<in> set (take n rows)" and "r \<in> set (drop n rows)"
  shows "precedes (column s) (column r)"
proof -
  have "sorted_wrt (\<lambda>r s. precedes (column r) (column s)) (take n rows @ drop n rows)"
    using assms(1) by (simp add: descending_def)
  then show ?thesis
    using assms(2,3) unfolding sorted_wrt_append by blast
qed

lemma mset_take_drop: "mset (take n rows) + mset (drop n rows) = mset rows"
  by (metis append_take_drop_id mset_append)

lemma year_max_bound: "y \<in> set ys \<Longrightarrow> \<exists>m. year_max ys = Some m \<and> y \<le> m"
  by (induction ys) (auto split: option.splits)

lemma year_max_member: "year_max ys = Some m \<Longrightarrow> m \<in> set ys"
  by (induction ys arbitrary: m) (auto split: option.splits simp: max_def)

section \<open>Properties of the histogram table\<close>

lemma sample_consumption_top:
  "top_5 (sort_values_stable Kilograms_capita) sample_consumption =
   [\<lparr>Country = ''Argentina'', Kilograms_capita = Some 47\<rparr>,
    \<lparr>Country = ''United States'', Kilograms_capita = Some 38\<rparr>,
    \<lparr>Country = ''Brazil'', Kilograms_capita = Some 35\<rparr>,
    \<lparr>Country = ''Uruguay'', Kilograms_capita = Some 33\<rparr>,
    \<lparr>Country = ''Australia'', Kilograms_capita = Some 28\<rparr>,
    \<lparr>Country = ''Canada'', Kilograms_capita = Some (51 / 2)\<rparr>,
    \<lparr>Country = ''Israel'', Kilograms_capita = Some 23\<rparr>,
    \<lparr>Country = ''Chile'', Kilograms_capita = Some 20\<rparr>,
    \<lparr>Country = ''Norway'', Kilograms_capita = Some 18\<rparr>,
    \<lparr>Country = ''Mexico'', Kilograms_capita = Some 15\<rparr>]"
  by code_simp

lemma sample_consumption_distinct: "distinct (map Country sample_consumption)"
  by code_simp

text \<open>
  Claim C4, as the code has it. For every consumption table and every ordering that
  \<^verbatim>\<open>nlargest\<close> may use, the histogram table has at most 10 rows (10, or all rows of a
  shorter table), is in descending order of \<^verbatim>\<open>Kilograms/capita\<close> with missing cells
  last, consists of rows of the table, each with a cell at least as great as that of every
  row left out, and has no country twice if the table has no country twice.
\<close>

theorem top_5_rows:
  assumes "sort_values_descending Kilograms_capita order"
  shows "length (top_5 order data) \<le> 10 \<and>
         length (top_5 order data) = min 10 (length data) \<and>
         descending Kilograms_capita (top_5 order data) \<and>
         mset (top_5 order data) \<subseteq># mset data \<and>
         (\<forall>s \<in> set (top_5 order data). \<forall>r \<in># mset data - mset (top_5 order data).
            precedes (Kilograms_capita s) (Kilograms_capita r)) \<and>
         (distinct (map Country data) \<longrightarrow> distinct (map Country (top_5 order data)))"
proof -
  let ?ranked = "order data"
  have m: "mset ?ranked = mset data" using assms by (rule order_mset)
  have d: "descending Kilograms_capita ?ranked" using assms by (rule order_descending)
  have split: "mset (take 10 ?ranked) + mset (drop 10 ?ranked) = mset data"
    using m by (simp add: mset_take_drop)
  then have rest: "mset data - mset (take 10 ?ranked) = mset (drop 10 ?ranked)"
    by (metis add_diff_cancel_left')
  have sub: "mset (take 10 ?ranked) \<subseteq># mset data"
    using split by (metis mset_subset_eq_add_left)
  have len: "length (take 10 ?ranked) = min 10 (length data)"
    using order_length [OF assms, of data] by simp
  have dist: "distinct (map Country (take 10 ?ranked))" if "distinct (map Country data)"
  proof -
    have "mset (map Country ?ranked) = mset (map Country data)"
      using m by (metis mset_map)
    with that have "distinct (map Country ?ranked)"
      by (metis mset_eq_imp_distinct_iff)
    then show ?thesis by (simp add: take_map [symmetric] distinct_take)
  qed
  have dom: "precedes (Kilograms_capita s) (Kilograms_capita r)"
    if "s \<in> set (take 10 ?ranked)" and "r \<in># mset data - mset (take 10 ?ranked)" for s r
    using d that unfolding rest by (auto intro: descending_take_drop)
  show ?thesis
    unfolding top_5_def nlargest_def
    using len sub dist dom descending_take [OF d, of 10] by simp
qed

text \<open>
  The histogram table of a table in which Argentina has two rows holds both: the script
  removes no repeated country.
\<close>

theorem top_5_repeated_country:
  "\<not> distinct (map Country (top_5 (sort_values_stable Kilograms_capita)
        sample_consumption_repeated))"
  by code_simp

theorem top_5_rows_witness:
  "sort_values_descending Kilograms_capita (sort_values_stable Kilograms_capita) \<and>
   distinct (map Country sample_consumption) \<and>
   length (top_5 (sort_values_stable Kilograms_capita) sample_consumption) = 10 \<and>
   map Country (top_5 (sort_values_stable Kilograms_capita) sample_consumption) =
     [''Argentina'', ''United States'', ''Brazil'', ''Uruguay'', ''Australia'', ''Canada'',
      ''Israel'', ''Chile'', ''Norway'', ''Mexico''] \<and>
   distinct (map Country (top_5 (sort_values_stable Kilograms_capita) sample_consumption)) \<and>
   descending Kilograms_capita (top_5 (sort_values_stable Kilograms_capita) sample_consumption)"
proof -
  have order: "sort_values_descending Kilograms_capita (sort_values_stable Kilograms_capita)"
    by (rule sort_values_stable_descending)
  have countries: "map Country (top_5 (sort_values_stable Kilograms_capita) sample_consumption) =
     [''Argentina'', ''United States'', ''Brazil'', ''Uruguay'', ''Australia'', ''Canada'',
      ''Israel'', ''Chile'', ''Norway'', ''Mexico'']"
    unfolding sample_consumption_top by simp
  have len: "length (top_5 (sort_values_stable Kilograms_capita) sample_consumption) = 10"
    unfolding sample_consumption_top by simp
  from top_5_rows [OF order, of sample_consumption] sample_consumption_distinct
  have "distinct (map Country (top_5 (sort_values_stable Kilograms_capita) sample_consumption))"
    and "descending Kilograms_capita (top_5 (sort_values_stable Kilograms_capita) sample_consumption)"
    by blast+
  with order sample_consumption_distinct countries len show ?thesis by blast
qed

section \<open>Properties of the obesity view\<close>

lemma recent_year_bound:
  "r \<in> set data \<Longrightarrow> \<exists>m. recent_year data = Some m \<and> Year r \<le> m"
  unfolding recent_year_def by (rule year_max_bound) simp

lemma recent_year_present:
  "recent_year data = Some m \<Longrightarrow> \<exists>r \<in> set data. Year r = m"
  unfolding recent_year_def using year_max_member by fastforce

lemma sample_obesity_ranked:
  "sort_values_stable Obesity (recent_data sample_obesity) =
   [\<lparr>Country = ''Nauru'', Year = 2016, Obesity = Some 61\<rparr>,
    \<lparr>Country = ''Palau'', Year = 2016, Obesity = Some 55\<rparr>,
    \<lparr>Country = ''Tonga'', Year = 2016, Obesity = Some 48\<rparr>,
    \<lparr>Country = ''Samoa'', Year = 2016, Obesity = Some 47\<rparr>,
    \<lparr>Country = ''Kuwait'', Year = 2016, Obesity = Some 38\<rparr>,
    \<lparr>Country = ''Jordan'', Year = 2016, Obesity = Some 36\<rparr>,
    \<lparr>Country = ''Qatar'', Year = 2016, Obesity = Some 35\<rparr>,
    \<lparr>Country = ''Libya'', Year = 2016, Obesity = Some 33\<rparr>,
    \<lparr>Country = ''Turkey'', Year = 2016, Obesity = Some (65 / 2)\<rparr>,
    \<lparr>Country = ''Egypt'', Year = 2016, Obesity = Some 32\<rparr>,
    \<lparr>Country = ''Fiji'', Year = 2016, Obesity = Some 30\<rparr>,
    \<lparr>Country = ''Chile'', Year = 2016, Obesity = Some 28\<rparr>,
    \<lparr>Country = ''Niue'', Year = 2016, Obesity = None\<rparr>]"
  by code_simp

lemma sample_obesity_recent_length: "length (recent_data sample_obesity) = 13"
  by code_simp

lemma sample_obesity_top_10:
  "top_10_countries (sort_values_stable Obesity) sample_obesity =
   [''Nauru'', ''Palau'', ''Tonga'', ''Samoa'', ''Kuwait'', ''Jordan'', ''Qatar'', ''Libya'',
    ''Turkey'', ''Egypt'']"
  by code_simp

lemma sample_obesity_recent_year: "recent_year sample_obesity = Some 2016"
  by code_simp

text \<open>
  Claim C3. For every obesity table and every ordering \<^verbatim>\<open>sort_values\<close> may use: the
  eligible rows are those of the most recent year of the table whose country is not on
  the exclusion list; the selected countries are the countries of the first 10 eligible
  rows in descending order of \<^verbatim>\<open>Obesity\<close> (missing cells last), exactly 10 when there
  are at least 10 eligible rows and all of them otherwise; the selected rows are in
  descending order, and each has a cell at least as great as that of every eligible row
  not selected.
\<close>

theorem top_10_countries_highest:
  assumes "sort_values_descending Obesity order"
  shows "top_10_countries order data = map Country (take 10 (order (recent_data data))) \<and>
         length (top_10_countries order data) = min 10 (length (recent_data data)) \<and>
         (10 \<le> length (recent_data data) \<longrightarrow> length (top_10_countries order data) = 10) \<and>
         descending Obesity (take 10 (order (recent_data data))) \<and>
         mset (take 10 (order (recent_data data))) + mset (drop 10 (order (recent_data data))) =
           mset (recent_data data) \<and>
         (\<forall>s \<in> set (take 10 (order (recent_data data))).
            \<forall>r \<in> set (drop 10 (order (recent_data data))).
              precedes (Obesity s) (Obesity r)) \<and>
         (\<forall>r. r \<in> set (recent_data data) \<longleftrightarrow>
            r \<in> set data \<and> Country r \<notin> set continents \<and> Some (Year r) = recent_year data) \<and>
         (\<forall>r \<in> set data. \<exists>m. recent_year data = Some m \<and> Year r \<le> m \<and> m \<in> Year ` set data)"
proof -
  let ?ranked = "order (recent_data data)"
  have d: "descending Obesity ?ranked" using assms by (rule order_descending)
  have m: "mset ?ranked = mset (recent_data data)" using assms by (rule order_mset)
  have len: "length ?ranked = length (recent_data data)" using assms by (rule order_length)
  have a: "top_10_countries order data = map Country (take 10 ?ranked)"
    by (simp add: top_10_countries_def take_map)
  have b: "length (top_10_countries order data) = min 10 (length (recent_data data))"
    unfolding a using len by simp
  have c: "mset (take 10 ?ranked) + mset (drop 10 ?ranked) = mset (recent_data data)"
    using m by (simp add: mset_take_drop)
  have e: "precedes (Obesity s) (Obesity r)"
    if "s \<in> set (take 10 ?ranked)" and "r \<in> set (drop 10 ?ranked)" for s r
    using d that by (rule descending_take_drop)
  have f: "r \<in> set (recent_data data) \<longleftrightarrow>
      r \<in> set data \<and> Country r \<notin> set continents \<and> Some (Year r) = recent_year data" for r
    by (auto simp: recent_data_def)
  have g: "\<exists>m. recent_year data = Some m \<and> Year r \<le> m \<and> m \<in> Year ` set data"
    if "r \<in> set data" for r
    using recent_year_bound [OF that] recent_year_present [of data] by fastforce
  show ?thesis
    using a b c e f g descending_take [OF d, of 10] by simp
qed

theorem top_10_countries_highest_witness:
  "sort_values_descending Obesity (sort_values_stable Obesity) \<and>
   10 \<le> length (recent_data sample_obesity) \<and>
   length (top_10_countries (sort_values_stable Obesity) sample_obesity) = 10 \<and>
   top_10_countries (sort_values_stable Obesity) sample_obesity =
     [''Nauru'', ''Palau'', ''Tonga'', ''Samoa'', ''Kuwait'', ''Jordan'', ''Qatar'', ''Libya'',
      ''Turkey'', ''Egypt''] \<and>
   precedes (Obesity \<lparr>Country = ''Egypt'', Year = 2016, Obesity = Some 32\<rparr>)
            (Obesity \<lparr>Country = ''Fiji'', Year = 2016, Obesity = Some 30\<rparr>)"
proof -
  let ?egypt = "\<lparr>Country = ''Egypt'', Year = 2016, Obesity = Some 32\<rparr>"
  let ?fiji = "\<lparr>Country = ''Fiji'', Year = 2016, Obesity = Some 30\<rparr>"
  have order: "sort_values_descending Obesity (sort_values_stable Obesity)"
    by (rule sort_values_stable_descending)
  have enough: "10 \<le> length (recent_data sample_obesity)"
    by (simp add: sample_obesity_recent_length)
  have chosen: "?egypt \<in> set (take 10 (sort_values_stable Obesity (recent_data sample_obesity)))"
    unfolding sample_obesity_ranked by simp
  have left: "?fiji \<in> set (drop 10 (sort_values_stable Obesity (recent_data sample_obesity)))"
    unfolding sample_obesity_ranked by simp
  from top_10_countries_highest [OF order, of sample_obesity] enough chosen left
  have "length (top_10_countries (sort_values_stable Obesity) sample_obesity) = 10"
    and "precedes (Obesity ?egypt) (Obesity ?fiji)"
    by blast+
  with order enough sample_obesity_top_10 show ?thesis by simp
qed

text \<open>
  Claim C8, as the code has it. The table of the series given to \<^verbatim>\<open>px.line\<close> holds
  every row of the dataset whose country is selected, whatever its year, and no other row;
  none of its rows is later than the most recent year of the dataset. Only the range of
  the x axis is set to 1980 through the most recent year.
\<close>

theorem obesity_series_rows:
  "data_frame (obesity_figure order data) =
     filter (\<lambda>r. Country r \<in> set (top_10_countries order data)) data \<and>
   range_x (obesity_figure order data) = (1980, recent_year data) \<and>
   (\<forall>r \<in> set data. Country r \<in> set (top_10_countries order data) \<longrightarrow>
      r \<in> set (data_frame (obesity_figure order data))) \<and>
   (\<forall>r \<in> set (data_frame (obesity_figure order data)).
      Country r \<in> set (top_10_countries order data) \<and>
      (\<exists>m. recent_year data = Some m \<and> Year r \<le> m))"
  using recent_year_bound [of _ data]
  by (simp add: obesity_figure_def filtered_df_def)

text \<open>
  A row of 1975 of a selected country is in the table of the series: the years before
  1980 are not taken out of the data.
\<close>

theorem obesity_series_before_1980:
  "\<lparr>Country = ''Nauru'', Year = 1975, Obesity = Some 40\<rparr>
     \<in> set (data_frame (obesity_figure (sort_values_stable Obesity) sample_obesity)) \<and>
   Year \<lparr>Country = ''Nauru'', Year = 1975, Obesity = Some 40\<rparr> < 1980 \<and>
   ''Nauru'' \<in> set (top_10_countries (sort_values_stable Obesity) sample_obesity)"
  by (simp add: obesity_figure_def filtered_df_def sample_obesity_top_10) (simp add: sample_obesity_def)

theorem obesity_series_rows_witness:
  "\<lparr>Country = ''Nauru'', Year = 1975, Obesity = Some 40\<rparr> \<in> set sample_obesity \<and>
   ''Nauru'' \<in> set (top_10_countries (sort_values_stable Obesity) sample_obesity) \<and>
   \<lparr>Country = ''Nauru'', Year = 1975, Obesity = Some 40\<rparr>
     \<in> set (data_frame (obesity_figure (sort_values_stable Obesity) sample_obesity)) \<and>
   range_x (obesity_figure (sort_values_stable Obesity) sample_obesity) = (1980, Some 2016)"
proof -
  let ?nauru = "\<lparr>Country = ''Nauru'', Year = 1975, Obesity = Some 40\<rparr>"
  have row: "?nauru \<in> set sample_obesity"
    by (simp add: sample_obesity_def)
  have country: "Country ?nauru \<in> set (top_10_countries (sort_values_stable Obesity) sample_obesity)"
    by (simp add: sample_obesity_top_10)
  from obesity_series_rows [of "sort_values_stable Obesity" sample_obesity] row country
  have "?nauru \<in> set (data_frame (obesity_figure (sort_values_stable Obesity) sample_obesity))"
    and "range_x (obesity_figure (sort_values_stable Obesity) sample_obesity) =
      (1980, recent_year sample_obesity)"
    by blast+
  with row country show ?thesis by (simp add: sample_obesity_recent_year)
qed

section \<open>Properties of the loaders\<close>

lemma set_rename:
  "set (rename columns header) =
     (\<lambda>c. case map_of columns c of Some n \<Rightarrow> n | None \<Rightarrow> c) ` set header"
  by (simp add: rename_def)

lemma dropWhile_fixed: "xs = [] \<or> \<not> P (hd xs) \<Longrightarrow> dropWhile P xs = xs"
  by (cases xs) auto

lemma dropWhile_head: "dropWhile P xs = [] \<or> \<not> P (hd (dropWhile P xs))"
  by (metis hd_dropWhile)

lemma strip_head: "strip s = [] \<or> \<not> isspace (hd (strip s))"
proof (cases "dropWhile isspace s")
  case Nil
  show ?thesis unfolding strip_def Nil by simp
next
  case (Cons c cs)
  then have c: "\<not> isspace c" using dropWhile_head [of isspace s] by simp
  have "rev (dropWhile isspace (rev (c # cs))) = c # rev (dropWhile isspace (rev cs)) \<or>
        rev (dropWhile isspace (rev (c # cs))) = [c]"
    using c by (simp add: dropWhile_append)
  then show ?thesis using c Cons by (auto simp: strip_def)
qed

lemma strip_last: "dropWhile isspace (rev (strip s)) = rev (strip s)"
  by (simp add: strip_def)

lemma strip_strip: "strip (strip s) = strip s"
proof -
  have "dropWhile isspace (strip s) = strip s"
    using strip_head [of s] by (intro dropWhile_fixed) simp
  then show ?thesis
    using strip_last [of s] by (simp add: strip_def [of "strip s"])
qed

lemma strip_subset: "set (strip s) \<subseteq> set s"
proof -
  have "set (strip s) \<subseteq> set (dropWhile isspace s)"
    unfolding strip_def using set_dropWhileD by fastforce
  also have "\<dots> \<subseteq> set s" using set_dropWhileD by fastforce
  finally show ?thesis .
qed

lemma replace_quote_fixed: "CHR 0x22 \<notin> set s \<Longrightarrow> replace_quote s = s"
  by (auto simp: replace_quote_def filter_id_conv)

lemma clean_idempotent:
  "strip (replace_quote (strip (replace_quote c))) = strip (replace_quote c)"
proof -
  have "CHR 0x22 \<notin> set (replace_quote c)" by (simp add: replace_quote_def)
  then have "CHR 0x22 \<notin> set (strip (replace_quote c))"
    using strip_subset by fastforce
  then show ?thesis by (simp add: replace_quote_fixed strip_strip)
qed

lemma load_consumption_data_changed:
  assumes "strip (replace_quote c) \<noteq> c"
  shows "c \<notin> set (load_consumption_data header)"
proof
  assume "c \<in> set (load_consumption_data header)"
  then obtain d where "c = strip (replace_quote d)"
    by (auto simp: load_consumption_data_def)
  then have "strip (replace_quote c) = c" by (simp add: clean_idempotent)
  with assms show False by simp
qed

lemma rename_two:
  assumes "k1 \<noteq> k2" and "v1 \<noteq> k1" and "v1 \<noteq> k2" and "v2 \<noteq> k1" and "v2 \<noteq> k2"
  shows "(k1 \<in> set header \<longrightarrow> v1 \<in> set (rename [(k1, v1), (k2, v2)] header)) \<and>
         (k2 \<in> set header \<longrightarrow> v2 \<in> set (rename [(k1, v1), (k2, v2)] header)) \<and>
         k1 \<notin> set (rename [(k1, v1), (k2, v2)] header) \<and>
         k2 \<notin> set (rename [(k1, v1), (k2, v2)] header)"
  using assms by (auto simp: set_rename image_iff split: if_splits)

lemma rename_twice:
  assumes "k1 \<noteq> k2" and "v1 \<noteq> k1" and "v1 \<noteq> k2" and "v2 \<noteq> k1" and "v2 \<noteq> k2"
  shows "(k1 \<in> set header \<longrightarrow> v1 \<in> set (rename [(k2, v2)] (rename [(k1, v1)] header))) \<and>
         (k2 \<in> set header \<longrightarrow> v2 \<in> set (rename [(k2, v2)] (rename [(k1, v1)] header))) \<and>
         k1 \<notin> set (rename [(k2, v2)] (rename [(k1, v1)] header)) \<and>
         k2 \<notin> set (rename [(k2, v2)] (rename [(k1, v1)] header))"
  using assms by (auto simp: set_rename image_iff split: if_splits)

lemma sample_headers_loaded:
  "load_meat_data sample_meat_header = [''Country'', ''Code'', ''Year'', ''Meat_Production'']"
  "load_agriculture_data sample_land_header =
     [''Country'', ''Code'', ''Year'', ''Agricultural_Area'']"
  "load_obesity_data sample_obesity_header = [''Country'', ''Code'', ''Year'', ''Obesity'']"
  "load_consumption_data sample_consumption_header = [''Country'', ''Kilograms/capita'']"
  by code_simp+

text \<open>
  Claim C7. For every header of the raw file: the meat, agriculture and obesity loaders
  return \<^verbatim>\<open>Country\<close> for a raw column \<^verbatim>\<open>Entity\<close> and the canonical name of the
  value column for the raw value column, and no column of their result is still called
  \<^verbatim>\<open>Entity\<close> or by the raw name of the value column; the consumption loader returns
  \<^verbatim>\<open>Country\<close> for a raw column that is \<^verbatim>\<open>Country\<close> once quotes and surrounding
  blanks are removed, and no label that the cleaning changes is a label of its result.
\<close>

theorem loaders_canonical_names:
  "(''Entity'' \<in> set header \<longrightarrow> ''Country'' \<in> set (load_meat_data header)) \<and>
   (meat_raw_name \<in> set header \<longrightarrow> ''Meat_Production'' \<in> set (load_meat_data header)) \<and>
   ''Entity'' \<notin> set (load_meat_data header) \<and>
   meat_raw_name \<notin> set (load_meat_data header) \<and>
   (''Entity'' \<in> set header \<longrightarrow> ''Country'' \<in> set (load_agriculture_data header)) \<and>
   (''Land use: Agriculture'' \<in> set header \<longrightarrow>
      ''Agricultural_Area'' \<in> set (load_agriculture_data header)) \<and>
   ''Entity'' \<notin> set (load_agriculture_data header) \<and>
   ''Land use: Agriculture'' \<notin> set (load_agriculture_data header) \<and>
   (''Entity'' \<in> set header \<longrightarrow> ''Country'' \<in> set (load_obesity_data header)) \<and>
   (obesity_raw_name \<in> set header \<longrightarrow> ''Obesity'' \<in> set (load_obesity_data header)) \<and>
   ''Entity'' \<notin> set (load_obesity_data header) \<and>
   obesity_raw_name \<notin> set (load_obesity_data header) \<and>
   (\<forall>c \<in> set header. strip (replace_quote c) = ''Country'' \<longrightarrow>
      ''Country'' \<in> set (load_consumption_data header)) \<and>
   (\<forall>c \<in> set header. strip (replace_quote c) \<noteq> c \<longrightarrow>
      c \<notin> set (load_consumption_data header))"
proof -
  have meat: "(''Entity'' \<in> set header \<longrightarrow> ''Country'' \<in> set (load_meat_data header)) \<and>
   (meat_raw_name \<in> set header \<longrightarrow> ''Meat_Production'' \<in> set (load_meat_data header)) \<and>
   ''Entity'' \<notin> set (load_meat_data header) \<and>
   meat_raw_name \<notin> set (load_meat_data header)"
    unfolding load_meat_data_def
    by (rule rename_two) (simp_all add: meat_raw_name_def)
  have land: "(''Entity'' \<in> set header \<longrightarrow> ''Country'' \<in> set (load_agriculture_data header)) \<and>
   (''Land use: Agriculture'' \<in> set header \<longrightarrow>
      ''Agricultural_Area'' \<in> set (load_agriculture_data header)) \<and>
   ''Entity'' \<notin> set (load_agriculture_data header) \<and>
   ''Land use: Agriculture'' \<notin> set (load_agriculture_data header)"
    unfolding load_agriculture_data_def
    by (rule rename_two) simp_all
  have obesity: "(''Entity'' \<in> set header \<longrightarrow> ''Country'' \<in> set (load_obesity_data header)) \<and>
   (obesity_raw_name \<in> set header \<longrightarrow> ''Obesity'' \<in> set (load_obesity_data header)) \<and>
   ''Entity'' \<notin> set (load_obesity_data header) \<and>
   obesity_raw_name \<notin> set (load_obesity_data header)"
    unfolding load_obesity_data_def
    by (rule rename_twice) (simp_all add: obesity_raw_name_def)
  have consumption: "(\<forall>c \<in> set header. strip (replace_quote c) = ''Country'' \<longrightarrow>
      ''Country'' \<in> set (load_consumption_data header)) \<and>
   (\<forall>c \<in> set header. strip (replace_quote c) \<noteq> c \<longrightarrow>
      c \<notin> set (load_consumption_data header))"
  proof (intro conjI ballI impI)
    fix c assume "c \<in> set header" and "strip (replace_quote c) = ''Country''"
    then show "''Country'' \<in> set (load_consumption_data header)"
      unfolding load_consumption_data_def by force
  next
    fix c assume "strip (replace_quote c) \<noteq> c"
    then show "c \<notin> set (load_consumption_data header)"
      by (rule load_consumption_data_changed)
  qed
  from meat land obesity consumption show ?thesis by blast
qed

theorem loaders_canonical_names_witness:
  "''Entity'' \<in> set sample_meat_header \<and> meat_raw_name \<in> set sample_meat_header \<and>
   ''Country'' \<in> set (load_meat_data sample_meat_header) \<and>
   ''Meat_Production'' \<in> set (load_meat_data sample_meat_header) \<and>
   ''Land use: Agriculture'' \<in> set sample_land_header \<and>
   ''Agricultural_Area'' \<in> set (load_agriculture_data sample_land_header) \<and>
   obesity_raw_name \<in> set sample_obesity_header \<and>
   ''Obesity'' \<in> set (load_obesity_data sample_obesity_header) \<and>
   CHR 0x22 # ''Country'' @ [CHR 0x22] \<in> set sample_consumption_header \<and>
   ''Country'' \<in> set (load_consumption_data sample_consumption_header) \<and>
   CHR 0x22 # ''Country'' @ [CHR 0x22] \<notin> set (load_consumption_data sample_consumption_header) \<and>
   load_consumption_data sample_consumption_header = [''Country'', ''Kilograms/capita'']"
proof -
  have meat: "''Entity'' \<in> set sample_meat_header" "meat_raw_name \<in> set sample_meat_header"
    by (simp_all add: sample_meat_header_def)
  have land: "''Land use: Agriculture'' \<in> set sample_land_header"
    by (simp add: sample_land_header_def)
  have obesity: "obesity_raw_name \<in> set sample_obesity_header"
    by (simp add: sample_obesity_header_def)
  have quoted: "CHR 0x22 # ''Country'' @ [CHR 0x22] \<in> set sample_consumption_header"
    by (simp add: sample_consumption_header_def)
  have cleaned: "strip (replace_quote (CHR 0x22 # ''Country'' @ [CHR 0x22])) = ''Country''"
    by code_simp
  then have changed: "strip (replace_quote (CHR 0x22 # ''Country'' @ [CHR 0x22])) \<noteq>
      CHR 0x22 # ''Country'' @ [CHR 0x22]"
    by simp
  from loaders_canonical_names [of sample_meat_header] meat
  have 1: "''Country'' \<in> set (load_meat_data sample_meat_header)"
    "''Meat_Production'' \<in> set (load_meat_data sample_meat_header)"
    by blast+
  from loaders_canonical_names [of sample_land_header] land
  have 2: "''Agricultural_Area'' \<in> set (load_agriculture_data sample_land_header)"
    by blast
  from loaders_canonical_names [of sample_obesity_header] obesity
  have 3: "''Obesity'' \<in> set (load_obesity_data sample_obesity_header)"
    by blast
  from loaders_canonical_names [of sample_consumption_header] quoted cleaned changed
  have 4: "''Country'' \<in> set (load_consumption_data sample_consumption_header)"
    "CHR 0x22 # ''Country'' @ [CHR 0x22] \<notin> set (load_consumption_data sample_consumption_header)"
    by blast+
  from meat land obesity quoted 1 2 3 4 sample_headers_loaded(4) show ?thesis by blast
qed

end
